theory Spec2Isabelle
  imports Main
begin

section \<open>The client registry of main.go\<close>

text \<open>
  The program keeps one package-level map from client id to client record, guarded by a
  mutex, and exposes three HTTP handlers over it. Each handler is embedded as a function
  from the map before the call and the request to the map after the call and the
  response written. The handlers hold the mutex from the first access of the map to
  their return, so a handler is one step on the map.
\<close>

subsection \<open>Data model\<close>

text \<open>
  Go's \<open>int\<close> is modelled as \<open>int\<close>: the handlers do no arithmetic on ids or ages,
  and the two parsers that produce an \<open>int\<close> reject what does not fit 64 bits.
  A \<open>time.Time\<close> is an instant (seconds and nanoseconds since the Unix epoch) together
  with the zone offset it was written in; its zero value is 1 January of year 1, UTC.
\<close>

record Time =
  unixSec :: int
  nsec :: nat
  offsetSec :: int

record Address =
  City :: string
  Street :: string

record Client =
  ID :: int
  Name :: string
  Age :: int
  RegisterDate :: Time
  FavCoffee :: string
  Address :: Address

type_synonym Store = "int \<rightharpoonup> Client"

definition zeroTime :: Time where
  "zeroTime = \<lparr>unixSec = - 62135596800, nsec = 0, offsetSec = 0\<rparr>"

definition zeroAddress :: Address where
  "zeroAddress = \<lparr>City = [], Street = []\<rparr>"

text \<open>The value of \<open>var newClient Client\<close> before anything is decoded into it.\<close>

definition zeroClient :: Client where
  "zeroClient = \<lparr>ID = 0, Name = [], Age = 0, RegisterDate = zeroTime,
     FavCoffee = [], Address = zeroAddress\<rparr>"

text \<open>The map \<open>clients\<close> as \<open>make\<close> creates it at process start.\<close>

definition clients0 :: Store where
  "clients0 = Map.empty"

subsection \<open>Requests and responses\<close>

text \<open>
  Of a request the handlers read the method, the body and the query of the URL. The
  body's type is left open: it is whatever the decoder reads.
\<close>

record 'b Request =
  Method :: string
  Query :: "string \<rightharpoonup> string list"
  Body :: 'b

definition MethodGet :: string where "MethodGet = ''GET''"
definition MethodPost :: string where "MethodPost = ''POST''"
definition MethodDelete :: string where "MethodDelete = ''DELETE''"

definition StatusOK :: nat where "StatusOK = 200"
definition StatusCreated :: nat where "StatusCreated = 201"
definition StatusBadRequest :: nat where "StatusBadRequest = 400"
definition StatusNotFound :: nat where "StatusNotFound = 404"
definition StatusMethodNotAllowed :: nat where "StatusMethodNotAllowed = 405"
definition StatusConflict :: nat where "StatusConflict = 409"

text \<open>
  The five fixed texts the handlers pass to \<open>http.Error\<close> (they are Russian sentences in
  the source), in the order of their first use: wrong request method, the body could not
  be parsed, a client with this ID exists already, wrong or missing ID, client not found.
\<close>

datatype Message = WrongMethod | BodyParseError | ClientExists | BadOrMissingID | ClientNotFound

text \<open>
  What a handler writes as the body: one of the fixed texts, the confirmation of a
  deletion (a sentence with the id printed by \<open>%d\<close>), the JSON encoding of one client, or
  the JSON encoding of the whole map (an object from id to client).
\<close>

datatype Payload =
    ErrorText Message
  | DeletedText int
  | ClientJSON Client
  | ClientsJSON Store

text \<open>
  \<open>ContentType\<close> is the header when the handler or \<open>http.Error\<close> sets it, and \<open>None\<close>
  when it is left to the server.
\<close>

record Response =
  Status :: nat
  ContentType :: "string option"
  Payload :: Payload

text \<open>\<open>http.Error(w, msg, code)\<close>.\<close>

definition httpError :: "Message \<Rightarrow> nat \<Rightarrow> Response" where
  "httpError msg code =
     \<lparr>Status = code, ContentType = Some ''text/plain; charset=utf-8'',
      Payload = ErrorText msg\<rparr>"

text \<open>\<open>url.Values.Get\<close>: the first value of the key, the empty string when there is none.\<close>

definition Get :: "(string \<rightharpoonup> string list) \<Rightarrow> string \<Rightarrow> string" where
  "Get v key = (case v key of None \<Rightarrow> [] | Some vs \<Rightarrow> (case vs of [] \<Rightarrow> [] | x # _ \<Rightarrow> x))"

subsection \<open>strconv.Atoi\<close>

text \<open>
  \<open>strconv.Atoi\<close> accepts an optional sign followed by one or more decimal digits, and
  fails when the value does not fit the 64-bit \<open>int\<close>.
\<close>

definition isDigit :: "char \<Rightarrow> bool" where
  "isDigit c = ((48::nat) \<le> of_char c \<and> (of_char c :: nat) \<le> 57)"

fun digitsVal :: "nat \<Rightarrow> string \<Rightarrow> nat" where
  "digitsVal acc [] = acc"
| "digitsVal acc (c # cs) = digitsVal (acc * 10 + (of_char c - 48)) cs"

definition Atoi :: "string \<Rightarrow> int option" where
  "Atoi s =
     (case s of
        [] \<Rightarrow> None
      | c # cs \<Rightarrow>
          (let neg = (c = CHR ''-'');
               ds = (if c = CHR ''-'' \<or> c = CHR ''+'' then cs else s)
           in if ds = [] \<or> \<not> list_all isDigit ds then None
              else (let v = (if neg then - int (digitsVal 0 ds) else int (digitsVal 0 ds))
                    in if - (2 ^ 63) \<le> v \<and> v < 2 ^ 63 then Some v else None)))"

text \<open>
  The decimal text of an integer, as \<open>%d\<close> prints it and as a caller writes an id into
  the query: a minus sign for a negative number, then the digits without leading zeros.
\<close>

fun digits :: "nat \<Rightarrow> string" where
  "digits n =
     (if n < 10 then [char_of (48 + n)]
      else digits (n div 10) @ [char_of (48 + n mod 10)])"

declare digits.simps [simp del]

definition decimal :: "int \<Rightarrow> string" where
  "decimal i = (if i < 0 then CHR ''-'' # digits (nat (- i)) else digits (nat i))"

subsection \<open>The handlers\<close>

text \<open>
  \<open>addClientHandler\<close> (lines 93 to 116). The parameter \<open>Decode\<close> stands for
  \<open>json.NewDecoder(r.Body).Decode(&newClient)\<close>: from the body and the value of
  \<open>newClient\<close> before the call it gives \<open>None\<close> when the decoder returns an error, and
  the value of \<open>newClient\<close> after the call otherwise.
\<close>

definition addClientHandler ::
  "('b \<Rightarrow> Client \<Rightarrow> Client option) \<Rightarrow> Store \<Rightarrow> 'b Request \<Rightarrow> Store \<times> Response" where
  "addClientHandler Decode clients r =
     (if Method r \<noteq> MethodPost then (clients, httpError WrongMethod StatusMethodNotAllowed)
      else case Decode (Body r) zeroClient of
        None \<Rightarrow> (clients, httpError BodyParseError StatusBadRequest)
      | Some newClient \<Rightarrow>
          (case clients (ID newClient) of
             Some _ \<Rightarrow> (clients, httpError ClientExists StatusConflict)
           | None \<Rightarrow>
               (clients(ID newClient \<mapsto> newClient),
                \<lparr>Status = StatusCreated, ContentType = None,
                 Payload = ClientJSON newClient\<rparr>)))"

text \<open>
  \<open>deleteClientHandler\<close> (lines 119 to 143). The source tests the error of \<open>Atoi\<close> first and the empty
  string second.
\<close>

definition deleteClientHandler :: "Store \<Rightarrow> 'b Request \<Rightarrow> Store \<times> Response" where
  "deleteClientHandler clients r =
     (if Method r \<noteq> MethodDelete then (clients, httpError WrongMethod StatusMethodNotAllowed)
      else let idStr = Get (Query r) ''id'' in
        case Atoi idStr of
          None \<Rightarrow> (clients, httpError BadOrMissingID StatusBadRequest)
        | Some id' \<Rightarrow>
            if idStr = [] then (clients, httpError BadOrMissingID StatusBadRequest)
            else (case clients id' of
               None \<Rightarrow> (clients, httpError ClientNotFound StatusNotFound)
             | Some _ \<Rightarrow>
                 (clients(id' := None),
                  \<lparr>Status = StatusOK, ContentType = None, Payload = DeletedText id'\<rparr>)))"

text \<open>
  \<open>getClientsHandler\<close> (lines 146 to 157). The status is the 200 the server writes
  with the first byte of the body.
\<close>

definition getClientsHandler :: "Store \<Rightarrow> 'b Request \<Rightarrow> Store \<times> Response" where
  "getClientsHandler clients r =
     (if Method r \<noteq> MethodGet then (clients, httpError WrongMethod StatusMethodNotAllowed)
      else (clients,
            \<lparr>Status = StatusOK, ContentType = Some ''application/json'',
             Payload = ClientsJSON clients\<rparr>))"

subsection \<open>encoding/json on the body of a POST\<close>

text \<open>
  A JSON value as the decoder's scanner delivers it. A number carries its literal as
  written. A string carries its text with the escapes resolved and, beside it, what
  \<open>time.Time\<close>'s \<open>UnmarshalJSON\<close> makes of the string (\<open>None\<close> when it reports an error):
  the time parser of package \<open>time\<close> is not modelled, and only the field
  \<open>registerDate\<close> looks at this component.
\<close>

datatype JSON =
    JNull
  | JBool bool
  | JNumber string
  | JString string "Time option"
  | JArray "JSON list"
  | JObject "(string \<times> JSON) list"

text \<open>
  A request body as \<open>Decoder.Decode\<close> reads it: \<open>NoValue\<close> when the body is empty or a
  syntax error comes before a first JSON value is complete, else the first JSON value of
  the body and the bytes that follow it.
\<close>

datatype JSONBody = NoValue | FirstValue JSON string

text \<open>
  Key matching. A key selects the field whose name it equals and, when there is none, the
  field whose name it equals under case folding. Folding maps the ASCII letters to lower
  case and the two other characters that fold to an ASCII letter, the long s (bytes C5 BF)
  and the Kelvin sign (bytes E2 84 AA), to \<open>s\<close> and \<open>k\<close>.
\<close>

definition lower :: "char \<Rightarrow> char" where
  "lower c = (if (65::nat) \<le> of_char c \<and> (of_char c :: nat) \<le> 90
              then char_of (of_char c + (32::nat)) else c)"

fun foldName :: "string \<Rightarrow> string" where
  "foldName [] = []"
| "foldName [c] = [lower c]"
| "foldName [c, d] = (if c = CHR 0xC5 \<and> d = CHR 0xBF then ''s'' else [lower c, lower d])"
| "foldName (c # d # e # cs) =
     (if c = CHR 0xC5 \<and> d = CHR 0xBF then CHR ''s'' # foldName (e # cs)
      else if c = CHR 0xE2 \<and> d = CHR 0x84 \<and> e = CHR 0xAA then CHR ''k'' # foldName cs
      else lower c # foldName (d # e # cs))"

definition findField :: "(string \<times> 'f) list \<Rightarrow> string \<Rightarrow> 'f option" where
  "findField fs key =
     (case map_of fs key of
        Some f \<Rightarrow> Some f
      | None \<Rightarrow> map_of (map (\<lambda>(name, f). (foldName name, f)) fs) (foldName key))"

text \<open>
  Storing a value into a field of each type. \<open>null\<close> leaves the field as it is; a value
  of another kind than the field's is an error. An \<open>int\<close> takes a number whose literal
  is an integer that fits 64 bits (a literal never begins with a plus sign).
\<close>

definition storeInt :: "JSON \<Rightarrow> int \<Rightarrow> int option" where
  "storeInt v cur = (case v of JNull \<Rightarrow> Some cur | JNumber lit \<Rightarrow> Atoi lit | _ \<Rightarrow> None)"

definition storeString :: "JSON \<Rightarrow> string \<Rightarrow> string option" where
  "storeString v cur = (case v of JNull \<Rightarrow> Some cur | JString s _ \<Rightarrow> Some s | _ \<Rightarrow> None)"

definition storeTime :: "JSON \<Rightarrow> Time \<Rightarrow> Time option" where
  "storeTime v cur = (case v of JNull \<Rightarrow> Some cur | JString _ t \<Rightarrow> t | _ \<Rightarrow> None)"

datatype AddressField = FCity | FStreet

definition addressFields :: "(string \<times> AddressField) list" where
  "addressFields = [(''city'', FCity), (''street'', FStreet)]"

text \<open>
  The members of an object are stored one after the other, so of two members for one
  field the later wins; a member whose key matches no field is skipped.
\<close>

fun storeAddressMembers :: "(string \<times> JSON) list \<Rightarrow> Address \<Rightarrow> Address option" where
  "storeAddressMembers [] a = Some a"
| "storeAddressMembers ((key, v) # ms) a =
     (case findField addressFields key of
        None \<Rightarrow> storeAddressMembers ms a
      | Some FCity \<Rightarrow>
          (case storeString v (City a) of
             None \<Rightarrow> None | Some s \<Rightarrow> storeAddressMembers ms (a\<lparr>City := s\<rparr>))
      | Some FStreet \<Rightarrow>
          (case storeString v (Street a) of
             None \<Rightarrow> None | Some s \<Rightarrow> storeAddressMembers ms (a\<lparr>Street := s\<rparr>)))"

definition storeAddress :: "JSON \<Rightarrow> Address \<Rightarrow> Address option" where
  "storeAddress v cur =
     (case v of JNull \<Rightarrow> Some cur | JObject ms \<Rightarrow> storeAddressMembers ms cur | _ \<Rightarrow> None)"

datatype ClientField = FID | FName | FAge | FRegisterDate | FFavCoffee | FAddress

text \<open>The names are the \<open>json\<close> tags of the struct \<open>Client\<close> (lines 24 to 31).\<close>

definition clientFields :: "(string \<times> ClientField) list" where
  "clientFields = [(''id'', FID), (''name'', FName), (''age'', FAge),
     (''registerDate'', FRegisterDate), (''favCoffee'', FFavCoffee), (''address'', FAddress)]"

fun storeClientMembers :: "(string \<times> JSON) list \<Rightarrow> Client \<Rightarrow> Client option" where
  "storeClientMembers [] c = Some c"
| "storeClientMembers ((key, v) # ms) c =
     (case findField clientFields key of
        None \<Rightarrow> storeClientMembers ms c
      | Some FID \<Rightarrow>
          (case storeInt v (ID c) of
             None \<Rightarrow> None | Some n \<Rightarrow> storeClientMembers ms (c\<lparr>ID := n\<rparr>))
      | Some FName \<Rightarrow>
          (case storeString v (Name c) of
             None \<Rightarrow> None | Some s \<Rightarrow> storeClientMembers ms (c\<lparr>Name := s\<rparr>))
      | Some FAge \<Rightarrow>
          (case storeInt v (Age c) of
             None \<Rightarrow> None | Some n \<Rightarrow> storeClientMembers ms (c\<lparr>Age := n\<rparr>))
      | Some FRegisterDate \<Rightarrow>
          (case storeTime v (RegisterDate c) of
             None \<Rightarrow> None | Some t \<Rightarrow> storeClientMembers ms (c\<lparr>RegisterDate := t\<rparr>))
      | Some FFavCoffee \<Rightarrow>
          (case storeString v (FavCoffee c) of
             None \<Rightarrow> None | Some s \<Rightarrow> storeClientMembers ms (c\<lparr>FavCoffee := s\<rparr>))
      | Some FAddress \<Rightarrow>
          (case storeAddress v (Address c) of
             None \<Rightarrow> None | Some a \<Rightarrow> storeClientMembers ms (c\<lparr>Address := a\<rparr>)))"

text \<open>
  Unmarshalling a value into \<open>newClient\<close>: an object stores its members, \<open>null\<close> changes
  nothing and is no error, every other value is an error.
\<close>

definition unmarshalClient :: "JSON \<Rightarrow> Client \<Rightarrow> Client option" where
  "unmarshalClient v c =
     (case v of JNull \<Rightarrow> Some c | JObject ms \<Rightarrow> storeClientMembers ms c | _ \<Rightarrow> None)"

text \<open>
  \<open>json.NewDecoder(r.Body).Decode(&newClient)\<close>: the first value of the body is
  unmarshalled; the bytes after it are not looked at.
\<close>

definition jsonDecode :: "JSONBody \<Rightarrow> Client \<Rightarrow> Client option" where
  "jsonDecode body newClient =
     (case body of NoValue \<Rightarrow> None | FirstValue v rest \<Rightarrow> unmarshalClient v newClient)"

text \<open>
  The condition of the specification on a body, in its weakest reading: the body is one
  JSON text, that is a value with nothing but white space after it, and the value is an
  object. Whatever more the expected shape of a client asks of the members, a body that
  is not even this does not parse as it.
\<close>

definition isSpace :: "char \<Rightarrow> bool" where
  "isSpace c = (c = CHR '' '' \<or> c = CHR 0x09 \<or> c = CHR 0x0A \<or> c = CHR 0x0D)"

definition parsesAsObject :: "JSONBody \<Rightarrow> bool" where
  "parsesAsObject body =
     (case body of
        NoValue \<Rightarrow> False
      | FirstValue v rest \<Rightarrow>
          list_all isSpace rest \<and> (case v of JObject _ \<Rightarrow> True | _ \<Rightarrow> False))"

subsection \<open>The server as a sequence of calls\<close>

text \<open>
  \<open>main\<close> registers the three handlers under three paths. The other two routes (the
  welcome page and the static files) never read or write the map. A call is the handler
  the request is routed to, and the request.
\<close>

datatype Endpoint = AddClient | DeleteClient | GetClients

definition serve ::
  "('b \<Rightarrow> Client \<Rightarrow> Client option) \<Rightarrow> Store \<Rightarrow> Endpoint \<times> 'b Request \<Rightarrow> Store \<times> Response" where
  "serve Decode clients call =
     (case fst call of
        AddClient \<Rightarrow> addClientHandler Decode clients (snd call)
      | DeleteClient \<Rightarrow> deleteClientHandler clients (snd call)
      | GetClients \<Rightarrow> getClientsHandler clients (snd call))"

text \<open>The map after a sequence of calls, each made on the map the call before left.\<close>

fun run ::
  "('b \<Rightarrow> Client \<Rightarrow> Client option) \<Rightarrow> Store \<Rightarrow> (Endpoint \<times> 'b Request) list \<Rightarrow> Store" where
  "run Decode clients [] = clients"
| "run Decode clients (call # calls) = run Decode (fst (serve Decode clients call)) calls"

subsection \<open>Example data\<close>

text \<open>
  The client of the end-to-end example: id 1, Anna, 30, registered
  2024-01-01T00:00:00Z, Latte, Main St in Oslo; and a second client with id 2.
\<close>

definition anna :: Client where
  "anna = \<lparr>ID = 1, Name = ''Anna'', Age = 30,
     RegisterDate = \<lparr>unixSec = 1704067200, nsec = 0, offsetSec = 0\<rparr>,
     FavCoffee = ''Latte'', Address = \<lparr>City = ''Oslo'', Street = ''Main St''\<rparr>\<rparr>"

definition bob :: Client where
  "bob = \<lparr>ID = 2, Name = ''Bob'', Age = 41,
     RegisterDate = \<lparr>unixSec = 1704067200, nsec = 0, offsetSec = 3600\<rparr>,
     FavCoffee = ''Espresso'', Address = \<lparr>City = ''Bergen'', Street = ''Quay 4''\<rparr>\<rparr>"

text \<open>
  In the examples a body is given by what decoding it does to \<open>newClient\<close>, and the
  decoder applies it: \<open>sets c\<close> is a body with all the fields of \<open>c\<close>, \<open>emptyObject\<close>
  the body \<^verbatim>\<open>{}\<close>, which sets no field, and \<open>malformed\<close> a body the decoder rejects.
\<close>

type_synonym ExampleBody = "Client \<Rightarrow> Client option"

definition applyBody :: "ExampleBody \<Rightarrow> Client \<Rightarrow> Client option" where
  "applyBody b newClient = b newClient"

definition sets :: "Client \<Rightarrow> ExampleBody" where
  "sets c = (\<lambda>_. Some c)"

definition emptyObject :: ExampleBody where
  "emptyObject = (\<lambda>newClient. Some newClient)"

definition malformed :: ExampleBody where
  "malformed = (\<lambda>_. None)"

definition postReq :: "ExampleBody \<Rightarrow> ExampleBody Request" where
  "postReq b = \<lparr>Method = ''POST'', Query = Map.empty, Body = b\<rparr>"

definition deleteReq :: "string \<Rightarrow> ExampleBody Request" where
  "deleteReq q = \<lparr>Method = ''DELETE'', Query = [''id'' \<mapsto> [q]], Body = malformed\<rparr>"

definition getReq :: "ExampleBody Request" where
  "getReq = \<lparr>Method = ''GET'', Query = Map.empty, Body = malformed\<rparr>"

text \<open>
  Three bodies as text: \<^verbatim>\<open>{"id":3} garbage\<close>, \<^verbatim>\<open>null\<close> and \<^verbatim>\<open>[]\<close>.
\<close>

definition garbageAfterObject :: JSONBody where
  "garbageAfterObject = FirstValue (JObject [(''id'', JNumber ''3'')]) '' garbage''"

definition nullBody :: JSONBody where
  "nullBody = FirstValue JNull []"

definition arrayBody :: JSONBody where
  "arrayBody = FirstValue (JArray []) []"

definition postJSON :: "JSONBody \<Rightarrow> JSONBody Request" where
  "postJSON b = \<lparr>Method = ''POST'', Query = Map.empty, Body = b\<rparr>"

section \<open>Properties\<close>

lemmas handler_defs = addClientHandler_def deleteClientHandler_def getClientsHandler_def
  httpError_def MethodGet_def MethodPost_def MethodDelete_def
  StatusOK_def StatusCreated_def StatusBadRequest_def StatusNotFound_def
  StatusMethodNotAllowed_def StatusConflict_def

lemma Atoi_Some_nonempty: "Atoi q = Some i \<Longrightarrow> q \<noteq> []"
  by (auto simp: Atoi_def)

subsection \<open>Every 64-bit integer is read back from its decimal text\<close>

lemma digits_not_Nil: "digits n \<noteq> []"
  by (subst digits.simps) simp

lemma isDigit_char_of: "(d::nat) < 10 \<Longrightarrow> isDigit (char_of (48 + d))"
  by (simp add: isDigit_def)

lemma digits_all_isDigit: "list_all isDigit (digits n)"
proof (induction n rule: digits.induct)
  case (1 n)
  show ?case
  proof (cases "n < 10")
    case True
    then show ?thesis
      by (subst digits.simps) (simp add: isDigit_char_of)
  next
    case False
    then have "list_all isDigit (digits (n div 10))"
      using "1.IH" by simp
    moreover have "isDigit (char_of (48 + n mod 10))"
      by (rule isDigit_char_of) simp
    ultimately show ?thesis
      using False by (subst digits.simps) simp
  qed
qed

lemma digitsVal_append: "digitsVal acc (xs @ ys) = digitsVal (digitsVal acc xs) ys"
  by (induction xs arbitrary: acc) simp_all

lemma digitsVal_char_of: "d < 10 \<Longrightarrow> digitsVal acc [char_of (48 + d)] = acc * 10 + d"
  by simp

lemma digitsVal_digits: "digitsVal 0 (digits n) = n"
proof (induction n rule: digits.induct)
  case (1 n)
  show ?case
  proof (cases "n < 10")
    case True
    then show ?thesis
      by (subst digits.simps) (simp add: digitsVal_char_of)
  next
    case False
    then have ih: "digitsVal 0 (digits (n div 10)) = n div 10"
      using "1.IH" by simp
    have "digitsVal 0 (digits n) = digitsVal (n div 10) [char_of (48 + n mod 10)]"
      using False ih by (subst digits.simps) (simp add: digitsVal_append)
    also have "\<dots> = (n div 10) * 10 + n mod 10"
      by (rule digitsVal_char_of) simp
    finally show ?thesis by simp
  qed
qed

lemma isDigit_not_sign: "isDigit c \<Longrightarrow> c \<noteq> CHR ''-'' \<and> c \<noteq> CHR ''+''"
  by (auto simp: isDigit_def)

lemma Atoi_digits:
  assumes "int n < 2 ^ 63"
  shows "Atoi (digits n) = Some (int n)"
proof -
  obtain c cs where e: "digits n = c # cs"
    using digits_not_Nil [of n] by (cases "digits n") auto
  have "isDigit c"
    using digits_all_isDigit [of n] e by simp
  then have ns: "c \<noteq> CHR ''-''" "c \<noteq> CHR ''+''"
    using isDigit_not_sign by blast+
  have "Atoi (digits n) =
    (if - (2 ^ 63) \<le> int (digitsVal 0 (digits n)) \<and> int (digitsVal 0 (digits n)) < 2 ^ 63
     then Some (int (digitsVal 0 (digits n))) else None)"
    unfolding Atoi_def e using ns digits_all_isDigit [of n]
    by (simp add: Let_def e del: digitsVal.simps)
  then show ?thesis
    using assms by (simp add: digitsVal_digits)
qed

lemma Atoi_minus_digits:
  assumes "int n \<le> 2 ^ 63"
  shows "Atoi (CHR ''-'' # digits n) = Some (- int n)"
proof -
  have "Atoi (CHR ''-'' # digits n) =
    (if - (2 ^ 63) \<le> - int (digitsVal 0 (digits n)) \<and> - int (digitsVal 0 (digits n)) < 2 ^ 63
     then Some (- int (digitsVal 0 (digits n))) else None)"
    unfolding Atoi_def using digits_not_Nil [of n] digits_all_isDigit [of n]
    by (simp add: Let_def)
  then show ?thesis
    using assms by (simp add: digitsVal_digits)
qed

lemma Atoi_decimal:
  assumes "- (2 ^ 63) \<le> i" and "i < 2 ^ 63"
  shows "Atoi (decimal i) = Some i"
proof (cases "i < 0")
  case True
  then have "int (nat (- i)) \<le> 2 ^ 63"
    using assms(1) by simp
  from Atoi_minus_digits [OF this] True show ?thesis
    by (simp add: decimal_def)
next
  case False
  then have "int (nat i) < 2 ^ 63"
    using assms(2) by simp
  from Atoi_digits [OF this] False show ?thesis
    by (simp add: decimal_def)
qed

subsection \<open>The three handlers on their own\<close>

lemma addClientHandler_fresh:
  assumes "Method r = MethodPost"
    and "Decode (Body r) zeroClient = Some c"
    and "clients (ID c) = None"
  shows "addClientHandler Decode clients r =
           (clients(ID c \<mapsto> c),
            \<lparr>Status = 201, ContentType = None, Payload = ClientJSON c\<rparr>)"
  using assms by (simp add: handler_defs)

lemma deleteClientHandler_present:
  assumes "Method d = MethodDelete"
    and "Atoi (Get (Query d) ''id'') = Some i"
    and "clients i = Some c"
  shows "deleteClientHandler clients d =
    (clients(i := None), \<lparr>Status = 200, ContentType = None, Payload = DeletedText i\<rparr>)"
  using assms Atoi_Some_nonempty [OF assms(2)]
  by (simp add: deleteClientHandler_def StatusOK_def)

lemma getClientsHandler_get:
  assumes "Method g = MethodGet"
  shows "getClientsHandler clients g =
    (clients, \<lparr>Status = 200, ContentType = Some ''application/json'',
               Payload = ClientsJSON clients\<rparr>)"
  using assms by (simp add: handler_defs)

subsection \<open>Adding a client\<close>

text \<open>
  C1. A POST whose body decodes to a client with an id the map already has is answered
  with 409 and the text for an existing client, and the map is returned as it was: the
  record stored under that id before is still stored under it.
\<close>

theorem addClientHandler_duplicate:
  assumes "Method r = MethodPost"
    and "Decode (Body r) zeroClient = Some c"
    and "clients (ID c) = Some old"
  shows "addClientHandler Decode clients r = (clients, httpError ClientExists StatusConflict)
    \<and> Status (snd (addClientHandler Decode clients r)) = 409
    \<and> fst (addClientHandler Decode clients r) (ID c) = Some old"
  using assms by (simp add: addClientHandler_def httpError_def StatusConflict_def)

theorem addClientHandler_duplicate_witness:
  "Method (postReq (sets anna)) = MethodPost
   \<and> applyBody (Body (postReq (sets anna))) zeroClient = Some anna
   \<and> (clients0(1 \<mapsto> bob)) (ID anna) = Some bob
   \<and> addClientHandler applyBody (clients0(1 \<mapsto> bob)) (postReq (sets anna))
       = (clients0(1 \<mapsto> bob), httpError ClientExists StatusConflict)
   \<and> Status (snd (addClientHandler applyBody (clients0(1 \<mapsto> bob)) (postReq (sets anna)))) = 409
   \<and> fst (addClientHandler applyBody (clients0(1 \<mapsto> bob)) (postReq (sets anna))) (ID anna) = Some bob"
proof -
  have m: "Method (postReq (sets anna)) = MethodPost"
    by (simp add: postReq_def MethodPost_def)
  have d: "applyBody (Body (postReq (sets anna))) zeroClient = Some anna"
    by (simp add: postReq_def sets_def applyBody_def)
  have p: "(clients0(1 \<mapsto> bob)) (ID anna) = Some bob"
    by (simp add: anna_def)
  show ?thesis
    using m d p
      addClientHandler_duplicate [of "postReq (sets anna)" applyBody anna "clients0(1 \<mapsto> bob)" bob]
    by blast
qed

text \<open>
  C2. A POST whose body decodes to a client with an id the map does not have is answered
  with 201 and the JSON of the decoded client as it is, and the client is stored under
  its id. A GET that follows is answered with the JSON of a map that has this very
  record under the id: equal records are equal in every field.
\<close>

theorem addClientHandler_fresh_then_list:
  assumes "Method r = MethodPost"
    and "Decode (Body r) zeroClient = Some c"
    and "clients (ID c) = None"
    and "Method g = MethodGet"
  shows "addClientHandler Decode clients r =
           (clients(ID c \<mapsto> c),
            \<lparr>Status = 201, ContentType = None, Payload = ClientJSON c\<rparr>)
    \<and> (\<exists>listed. snd (getClientsHandler (fst (addClientHandler Decode clients r)) g)
           = \<lparr>Status = 200, ContentType = Some ''application/json'',
              Payload = ClientsJSON listed\<rparr>
         \<and> listed (ID c) = Some c)"
  using assms by (simp add: handler_defs)

theorem addClientHandler_fresh_then_list_witness:
  "Method (postReq (sets anna)) = MethodPost
   \<and> applyBody (Body (postReq (sets anna))) zeroClient = Some anna
   \<and> (clients0(2 \<mapsto> bob)) (ID anna) = None
   \<and> Method getReq = MethodGet
   \<and> addClientHandler applyBody (clients0(2 \<mapsto> bob)) (postReq (sets anna)) =
        ((clients0(2 \<mapsto> bob))(ID anna \<mapsto> anna),
         \<lparr>Status = 201, ContentType = None, Payload = ClientJSON anna\<rparr>)
   \<and> (\<exists>listed.
         snd (getClientsHandler
               (fst (addClientHandler applyBody (clients0(2 \<mapsto> bob)) (postReq (sets anna)))) getReq)
           = \<lparr>Status = 200, ContentType = Some ''application/json'',
              Payload = ClientsJSON listed\<rparr>
         \<and> listed (ID anna) = Some anna)"
proof -
  have m: "Method (postReq (sets anna)) = MethodPost"
    by (simp add: postReq_def MethodPost_def)
  have d: "applyBody (Body (postReq (sets anna))) zeroClient = Some anna"
    by (simp add: postReq_def sets_def applyBody_def)
  have p: "(clients0(2 \<mapsto> bob)) (ID anna) = None"
    by (simp add: anna_def clients0_def)
  have g: "Method getReq = MethodGet"
    by (simp add: getReq_def MethodGet_def)
  show ?thesis
    using m d p g
      addClientHandler_fresh_then_list
        [of "postReq (sets anna)" applyBody anna "clients0(2 \<mapsto> bob)" getReq]
    by blast
qed

lemma jsonDecode_garbageAfterObject:
  "jsonDecode garbageAfterObject zeroClient = Some (zeroClient\<lparr>ID := 3\<rparr>)"
  by (simp add: jsonDecode_def garbageAfterObject_def unmarshalClient_def findField_def
      clientFields_def storeInt_def Atoi_def isDigit_def)

lemma jsonDecode_nullBody: "jsonDecode nullBody zeroClient = Some zeroClient"
  by (simp add: jsonDecode_def nullBody_def unmarshalClient_def)

lemma jsonDecode_arrayBody: "jsonDecode arrayBody zeroClient = None"
  by (simp add: jsonDecode_def arrayBody_def unmarshalClient_def)

lemma Method_postJSON: "Method (postJSON b) = MethodPost"
  by (simp add: postJSON_def MethodPost_def)

lemma Body_postJSON: "Body (postJSON b) = b"
  by (simp add: postJSON_def)

text \<open>
  C7, as the code has it. A POST is answered with 400 exactly when \<open>Decode\<close> returns an
  error on its body, and then the map is returned as it was. This holds for every
  decoder. It is not the same as the body failing to parse: \<open>Decode\<close> reads the first
  JSON value of the body and does not look at what follows it, and it takes \<open>null\<close>
  without an error.
\<close>

theorem addClientHandler_bad_request_iff:
  assumes "Method r = MethodPost"
  shows "(Status (snd (addClientHandler Decode clients r)) = 400
           \<longleftrightarrow> Decode (Body r) zeroClient = None)
    \<and> (Decode (Body r) zeroClient = None \<longrightarrow>
          addClientHandler Decode clients r = (clients, httpError BodyParseError StatusBadRequest))"
  using assms by (simp add: handler_defs split: option.splits)

theorem addClientHandler_bad_request_iff_witness:
  "Method (postJSON arrayBody) = MethodPost
   \<and> jsonDecode (Body (postJSON arrayBody)) zeroClient = None
   \<and> Status (snd (addClientHandler jsonDecode (clients0(1 \<mapsto> anna)) (postJSON arrayBody))) = 400
   \<and> addClientHandler jsonDecode (clients0(1 \<mapsto> anna)) (postJSON arrayBody)
        = (clients0(1 \<mapsto> anna), httpError BodyParseError StatusBadRequest)
   \<and> Method (postJSON garbageAfterObject) = MethodPost
   \<and> jsonDecode (Body (postJSON garbageAfterObject)) zeroClient \<noteq> None
   \<and> Status (snd (addClientHandler jsonDecode (clients0(1 \<mapsto> anna))
          (postJSON garbageAfterObject))) \<noteq> 400"
proof -
  have m: "Method (postJSON arrayBody) = MethodPost"
    by (rule Method_postJSON)
  have d: "jsonDecode (Body (postJSON arrayBody)) zeroClient = None"
    by (simp add: Body_postJSON jsonDecode_arrayBody)
  have m': "Method (postJSON garbageAfterObject) = MethodPost"
    by (rule Method_postJSON)
  have d': "jsonDecode (Body (postJSON garbageAfterObject)) zeroClient \<noteq> None"
    by (simp add: Body_postJSON jsonDecode_garbageAfterObject)
  note bad = addClientHandler_bad_request_iff
      [of "postJSON arrayBody" jsonDecode "clients0(1 \<mapsto> anna)", OF m]
  note good = addClientHandler_bad_request_iff
      [of "postJSON garbageAfterObject" jsonDecode "clients0(1 \<mapsto> anna)", OF m']
  have s: "Status (snd (addClientHandler jsonDecode (clients0(1 \<mapsto> anna)) (postJSON arrayBody))) = 400"
    using bad [THEN conjunct1] d by (rule iffD2)
  have e: "addClientHandler jsonDecode (clients0(1 \<mapsto> anna)) (postJSON arrayBody)
        = (clients0(1 \<mapsto> anna), httpError BodyParseError StatusBadRequest)"
    using bad [THEN conjunct2] d by (rule mp)
  have s': "Status (snd (addClientHandler jsonDecode (clients0(1 \<mapsto> anna))
          (postJSON garbageAfterObject))) \<noteq> 400"
    using good [THEN conjunct1] d' by blast
  show ?thesis
    by (intro conjI m d s e m' d' s')
qed

text \<open>
  C7 as the specification words it, 400 exactly when the body fails to parse as the
  expected shape of a client, fails on two bodies. The body \<^verbatim>\<open>{"id":3} garbage\<close> is not
  a JSON text, and the body \<^verbatim>\<open>null\<close> is not an object. Both are answered with 201,
  and a client is stored: under id 3 for the first, the zero-valued client under id 0
  for the second.
\<close>

theorem addClientHandler_accepts_unparsed_body:
  "Method (postJSON garbageAfterObject) = MethodPost
   \<and> \<not> parsesAsObject (Body (postJSON garbageAfterObject))
   \<and> addClientHandler jsonDecode clients0 (postJSON garbageAfterObject) =
        (clients0(3 \<mapsto> zeroClient\<lparr>ID := 3\<rparr>),
         \<lparr>Status = 201, ContentType = None, Payload = ClientJSON (zeroClient\<lparr>ID := 3\<rparr>)\<rparr>)
   \<and> \<not> (Status (snd (addClientHandler jsonDecode clients0 (postJSON garbageAfterObject))) = 400
          \<longleftrightarrow> \<not> parsesAsObject (Body (postJSON garbageAfterObject)))
   \<and> Method (postJSON nullBody) = MethodPost
   \<and> \<not> parsesAsObject (Body (postJSON nullBody))
   \<and> addClientHandler jsonDecode clients0 (postJSON nullBody) =
        (clients0(0 \<mapsto> zeroClient),
         \<lparr>Status = 201, ContentType = None, Payload = ClientJSON zeroClient\<rparr>)
   \<and> \<not> (Status (snd (addClientHandler jsonDecode clients0 (postJSON nullBody))) = 400
          \<longleftrightarrow> \<not> parsesAsObject (Body (postJSON nullBody)))"
proof -
  have g1: "\<not> parsesAsObject (Body (postJSON garbageAfterObject))"
    by (simp add: Body_postJSON parsesAsObject_def garbageAfterObject_def isSpace_def)
  have g2: "addClientHandler jsonDecode clients0 (postJSON garbageAfterObject) =
        (clients0(3 \<mapsto> zeroClient\<lparr>ID := 3\<rparr>),
         \<lparr>Status = 201, ContentType = None, Payload = ClientJSON (zeroClient\<lparr>ID := 3\<rparr>)\<rparr>)"
    by (simp add: addClientHandler_def Method_postJSON Body_postJSON
        jsonDecode_garbageAfterObject clients0_def StatusCreated_def)
  have g3: "Status (snd (addClientHandler jsonDecode clients0 (postJSON garbageAfterObject))) \<noteq> 400"
    unfolding g2 by simp
  have z: "ID zeroClient = 0"
    by (simp add: zeroClient_def)
  have n1: "\<not> parsesAsObject (Body (postJSON nullBody))"
    by (simp add: Body_postJSON parsesAsObject_def nullBody_def)
  have n2: "addClientHandler jsonDecode clients0 (postJSON nullBody) =
        (clients0(0 \<mapsto> zeroClient),
         \<lparr>Status = 201, ContentType = None, Payload = ClientJSON zeroClient\<rparr>)"
    by (simp add: addClientHandler_def Method_postJSON Body_postJSON
        jsonDecode_nullBody clients0_def StatusCreated_def z)
  have n3: "Status (snd (addClientHandler jsonDecode clients0 (postJSON nullBody))) \<noteq> 400"
    unfolding n2 by simp
  have g4: "\<not> (Status (snd (addClientHandler jsonDecode clients0 (postJSON garbageAfterObject))) = 400
          \<longleftrightarrow> \<not> parsesAsObject (Body (postJSON garbageAfterObject)))"
    using g1 g3 by blast
  have n4: "\<not> (Status (snd (addClientHandler jsonDecode clients0 (postJSON nullBody))) = 400
          \<longleftrightarrow> \<not> parsesAsObject (Body (postJSON nullBody)))"
    using n1 n3 by blast
  show ?thesis
    by (intro conjI Method_postJSON g1 g2 g4 n1 n2 n4)
qed

subsection \<open>Deleting a client\<close>

text \<open>
  C3. A DELETE whose \<open>id\<close> parameter parses to an integer the map has no entry for
  (the empty map included) is answered with 404 and the text for a missing client, and
  the map is returned as it was.
\<close>

theorem deleteClientHandler_absent:
  assumes "Method d = MethodDelete"
    and "Atoi (Get (Query d) ''id'') = Some i"
    and "clients i = None"
  shows "deleteClientHandler clients d = (clients, httpError ClientNotFound StatusNotFound)
    \<and> Status (snd (deleteClientHandler clients d)) = 404"
  using assms Atoi_Some_nonempty [OF assms(2)]
  by (simp add: deleteClientHandler_def httpError_def StatusNotFound_def)

theorem deleteClientHandler_absent_witness:
  "Method (deleteReq ''1'') = MethodDelete
   \<and> Atoi (Get (Query (deleteReq ''1'')) ''id'') = Some 1
   \<and> clients0 1 = None
   \<and> deleteClientHandler clients0 (deleteReq ''1'')
        = (clients0, httpError ClientNotFound StatusNotFound)
   \<and> Status (snd (deleteClientHandler clients0 (deleteReq ''1''))) = 404"
proof -
  have m: "Method (deleteReq ''1'') = MethodDelete"
    by (simp add: deleteReq_def MethodDelete_def)
  have a: "Atoi (Get (Query (deleteReq ''1'')) ''id'') = Some 1"
    by (simp add: deleteReq_def Get_def Atoi_def isDigit_def)
  have p: "clients0 1 = None"
    by (simp add: clients0_def)
  show ?thesis
    using m a p deleteClientHandler_absent [of "deleteReq ''1''" 1 clients0]
    by blast
qed

text \<open>
  C4. After a successful POST of a client \<open>c\<close>, a DELETE with the id of \<open>c\<close> is answered
  with 200 and the confirmation that prints the id, and it removes the entry: the map is
  the one before the POST and has nothing under the id. A GET that follows is answered
  with the JSON of that map, and a second DELETE with the same id with 404.
\<close>

theorem add_then_delete:
  assumes "Method r = MethodPost"
    and "Decode (Body r) zeroClient = Some c"
    and "clients (ID c) = None"
    and "Method d = MethodDelete"
    and "Atoi (Get (Query d) ''id'') = Some (ID c)"
    and "Method g = MethodGet"
    and "added = fst (addClientHandler Decode clients r)"
    and "removed = fst (deleteClientHandler added d)"
  shows "snd (deleteClientHandler added d) =
           \<lparr>Status = 200, ContentType = None, Payload = DeletedText (ID c)\<rparr>
    \<and> removed = clients
    \<and> removed (ID c) = None
    \<and> snd (getClientsHandler removed g) =
           \<lparr>Status = 200, ContentType = Some ''application/json'',
            Payload = ClientsJSON removed\<rparr>
    \<and> deleteClientHandler removed d = (removed, httpError ClientNotFound StatusNotFound)
    \<and> Status (httpError ClientNotFound StatusNotFound) = 404"
proof -
  have a: "added = clients(ID c \<mapsto> c)"
    using assms(7) addClientHandler_fresh [of r Decode c clients, OF assms(1,2,3)] by simp
  then have "added (ID c) = Some c" by simp
  from deleteClientHandler_present [of d "ID c" added c, OF assms(4,5) this]
  have del: "deleteClientHandler added d =
    (added(ID c := None), \<lparr>Status = 200, ContentType = None, Payload = DeletedText (ID c)\<rparr>)" .
  have rem: "removed = clients"
    using assms(8) del a assms(3) by (simp add: fun_upd_idem)
  have none: "removed (ID c) = None"
    using rem assms(3) by simp
  have again: "deleteClientHandler removed d = (removed, httpError ClientNotFound StatusNotFound)"
    using assms(4,5) none Atoi_Some_nonempty [OF assms(5)]
    by (simp add: deleteClientHandler_def)
  show ?thesis
    using del rem none again getClientsHandler_get [OF assms(6), of removed]
    by (simp add: httpError_def StatusNotFound_def)
qed

theorem add_then_delete_witness:
  "Method (postReq (sets anna)) = MethodPost
   \<and> applyBody (Body (postReq (sets anna))) zeroClient = Some anna
   \<and> clients0 (ID anna) = None
   \<and> Method (deleteReq ''1'') = MethodDelete
   \<and> Atoi (Get (Query (deleteReq ''1'')) ''id'') = Some (ID anna)
   \<and> Method getReq = MethodGet
   \<and> snd (deleteClientHandler
             (fst (addClientHandler applyBody clients0 (postReq (sets anna)))) (deleteReq ''1'')) =
        \<lparr>Status = 200, ContentType = None, Payload = DeletedText (ID anna)\<rparr>
   \<and> fst (deleteClientHandler
             (fst (addClientHandler applyBody clients0 (postReq (sets anna)))) (deleteReq ''1''))
        = clients0
   \<and> snd (getClientsHandler clients0 getReq) =
        \<lparr>Status = 200, ContentType = Some ''application/json'',
         Payload = ClientsJSON clients0\<rparr>
   \<and> deleteClientHandler clients0 (deleteReq ''1'')
        = (clients0, httpError ClientNotFound StatusNotFound)"
proof -
  have m: "Method (postReq (sets anna)) = MethodPost"
    by (simp add: postReq_def MethodPost_def)
  have d: "applyBody (Body (postReq (sets anna))) zeroClient = Some anna"
    by (simp add: postReq_def sets_def applyBody_def)
  have p: "clients0 (ID anna) = None"
    by (simp add: clients0_def)
  have md: "Method (deleteReq ''1'') = MethodDelete"
    by (simp add: deleteReq_def MethodDelete_def)
  have a: "Atoi (Get (Query (deleteReq ''1'')) ''id'') = Some (ID anna)"
    by (simp add: deleteReq_def Get_def Atoi_def isDigit_def anna_def)
  have g: "Method getReq = MethodGet"
    by (simp add: getReq_def MethodGet_def)
  note t = add_then_delete [where Decode = applyBody and r = "postReq (sets anna)" and c = anna
      and clients = clients0 and d = "deleteReq ''1''" and g = getReq, OF m d p md a g refl refl]
  have r: "fst (deleteClientHandler
             (fst (addClientHandler applyBody clients0 (postReq (sets anna)))) (deleteReq ''1''))
        = clients0"
    using t by blast
  show ?thesis
    using m d p md a g t unfolding r by blast
qed

subsection \<open>Listing the clients\<close>

text \<open>
  C6. A GET is always answered with 200, the JSON content type and the JSON of the whole
  map as it is at the call, and the map is returned as it was.
\<close>

theorem getClientsHandler_snapshot:
  assumes "Method g = MethodGet"
  shows "getClientsHandler clients g =
    (clients, \<lparr>Status = 200, ContentType = Some ''application/json'',
               Payload = ClientsJSON clients\<rparr>)"
  using assms by (simp add: handler_defs)

theorem getClientsHandler_snapshot_witness:
  "Method getReq = MethodGet
   \<and> getClientsHandler (clients0(1 \<mapsto> anna)) getReq =
        (clients0(1 \<mapsto> anna),
         \<lparr>Status = 200, ContentType = Some ''application/json'',
          Payload = ClientsJSON (clients0(1 \<mapsto> anna))\<rparr>)"
proof -
  have g: "Method getReq = MethodGet"
    by (simp add: getReq_def MethodGet_def)
  show ?thesis
    using g getClientsHandler_snapshot [of getReq "clients0(1 \<mapsto> anna)"] by blast
qed

subsection \<open>Invariants of the map\<close>

lemma serve_key_is_ID:
  assumes "\<forall>k c. s k = Some c \<longrightarrow> ID c = k"
  shows "\<forall>k c. fst (serve Decode s call) k = Some c \<longrightarrow> ID c = k"
proof (cases "fst call")
  case AddClient
  then show ?thesis
    using assms by (auto simp: serve_def addClientHandler_def split: if_splits option.splits)
next
  case DeleteClient
  then show ?thesis
    using assms
    by (auto simp: serve_def deleteClientHandler_def Let_def split: if_splits option.splits)
next
  case GetClients
  then show ?thesis
    using assms by (auto simp: serve_def getClientsHandler_def split: if_splits)
qed

lemma key_is_ID_preserved:
  "(\<forall>k c. s k = Some c \<longrightarrow> ID c = k) \<Longrightarrow>
   (\<forall>k c. run Decode s calls k = Some c \<longrightarrow> ID c = k)"
proof (induction calls arbitrary: s)
  case Nil
  then show ?case by simp
next
  case (Cons call calls)
  have step: "\<forall>k c. fst (serve Decode s call) k = Some c \<longrightarrow> ID c = k"
    using Cons.prems by (rule serve_key_is_ID)
  show ?case
    unfolding run.simps by (rule Cons.IH [OF step])
qed

lemma reachable_key_is_ID:
  "run Decode clients0 calls k = Some c \<Longrightarrow> ID c = k"
  using key_is_ID_preserved [of clients0 Decode calls] by (simp add: clients0_def)

lemma serve_keeps_records:
  assumes "s k = Some c"
  shows "fst (serve Decode s call) k = Some c \<or> fst (serve Decode s call) k = None"
  using assms
  by (cases "fst call")
     (auto simp: serve_def addClientHandler_def deleteClientHandler_def getClientsHandler_def
        Let_def split: if_splits option.splits)

lemma serve_new_record:
  assumes "s k = None" and "fst (serve Decode s call) k = Some c"
  shows "fst call = AddClient \<and> Method (snd call) = MethodPost
    \<and> Decode (Body (snd call)) zeroClient = Some c \<and> ID c = k"
  using assms
  by (cases "fst call")
     (auto simp: serve_def addClientHandler_def deleteClientHandler_def getClientsHandler_def
        Let_def split: if_splits option.splits)

lemma run_add_anna:
  "run applyBody clients0 [(AddClient, postReq (sets anna))] = clients0(1 \<mapsto> anna)"
  by (simp add: serve_def addClientHandler_def postReq_def sets_def applyBody_def MethodPost_def
      clients0_def anna_def)

text \<open>
  C9. In every map that a sequence of calls produces from the empty map, each key is the
  \<open>ID\<close> field of the record stored under it.
\<close>

theorem run_key_is_ID:
  assumes "clients = run Decode clients0 calls"
    and "clients k = Some c"
  shows "ID c = k"
  using assms reachable_key_is_ID by blast

theorem run_key_is_ID_witness:
  "clients0(1 \<mapsto> anna) = run applyBody clients0 [(AddClient, postReq (sets anna))]
   \<and> (clients0(1 \<mapsto> anna)) 1 = Some anna
   \<and> ID anna = 1"
proof -
  have r: "clients0(1 \<mapsto> anna) = run applyBody clients0 [(AddClient, postReq (sets anna))]"
    by (rule run_add_anna [symmetric])
  have s: "(clients0(1 \<mapsto> anna)) 1 = Some anna"
    by simp
  show ?thesis
    using r s run_key_is_ID [OF r s] by blast
qed

text \<open>
  C5. Let \<open>clients\<close> be the map after any sequence of calls from the empty map, and
  \<open>clients'\<close> the map after one more call, whatever it is. In \<open>clients\<close> no two entries
  hold records with the same \<open>ID\<close>. A record stored in \<open>clients\<close> is stored unchanged
  under the same key in \<open>clients'\<close>, or that key has no entry there. A record under a key
  that had no entry in \<open>clients\<close> was put there by \<open>addClientHandler\<close>, and is the
  record the decoder gave for the body, stored under its own \<open>ID\<close>.
\<close>

theorem run_store_invariant:
  assumes "clients = run Decode clients0 calls"
    and "clients' = fst (serve Decode clients call)"
  shows "(clients k1 = Some c1 \<and> clients k2 = Some c2 \<and> ID c1 = ID c2 \<longrightarrow> k1 = k2 \<and> c1 = c2)
    \<and> (clients k = Some c \<longrightarrow> clients' k = Some c \<or> clients' k = None)
    \<and> (clients j = None \<and> clients' j = Some n \<longrightarrow>
          fst call = AddClient \<and> Decode (Body (snd call)) zeroClient = Some n \<and> ID n = j)"
proof -
  have one: "k1 = k2 \<and> c1 = c2"
    if h: "clients k1 = Some c1 \<and> clients k2 = Some c2 \<and> ID c1 = ID c2"
  proof -
    have "ID c1 = k1"
      using h assms(1) reachable_key_is_ID [of Decode calls k1 c1] by simp
    moreover have "ID c2 = k2"
      using h assms(1) reachable_key_is_ID [of Decode calls k2 c2] by simp
    ultimately have k: "k1 = k2" using h by simp
    from h have "clients k1 = Some c1" and "clients k2 = Some c2" by simp_all
    with k have "Some c1 = Some c2" by simp
    with k show ?thesis by simp
  qed
  have kept: "clients' k = Some c \<or> clients' k = None" if "clients k = Some c"
    unfolding assms(2) using that by (rule serve_keeps_records)
  have new: "fst call = AddClient \<and> Decode (Body (snd call)) zeroClient = Some n \<and> ID n = j"
    if h: "clients j = None \<and> clients' j = Some n"
    using h serve_new_record [of clients j Decode call n] unfolding assms(2) by simp
  from one kept new show ?thesis by blast
qed

theorem run_store_invariant_witness:
  "clients0(1 \<mapsto> anna) = run applyBody clients0 [(AddClient, postReq (sets anna))]
   \<and> (clients0(1 \<mapsto> anna))(2 \<mapsto> bob)
        = fst (serve applyBody (clients0(1 \<mapsto> anna)) (AddClient, postReq (sets bob)))
   \<and> (clients0(1 \<mapsto> anna)) 1 = Some anna \<and> ID anna = ID anna
   \<and> ((clients0(1 \<mapsto> anna))(2 \<mapsto> bob)) 1 = Some anna
   \<and> (clients0(1 \<mapsto> anna)) 2 = None
   \<and> ((clients0(1 \<mapsto> anna))(2 \<mapsto> bob)) 2 = Some bob
   \<and> fst (AddClient, postReq (sets bob)) = AddClient
   \<and> applyBody (Body (snd (AddClient, postReq (sets bob)))) zeroClient = Some bob
   \<and> ID bob = 2"
proof -
  have r: "clients0(1 \<mapsto> anna) = run applyBody clients0 [(AddClient, postReq (sets anna))]"
    by (rule run_add_anna [symmetric])
  have s: "(clients0(1 \<mapsto> anna))(2 \<mapsto> bob)
        = fst (serve applyBody (clients0(1 \<mapsto> anna)) (AddClient, postReq (sets bob)))"
    by (simp add: serve_def addClientHandler_def postReq_def sets_def applyBody_def MethodPost_def
        clients0_def bob_def)
  have a: "(clients0(1 \<mapsto> anna)) 1 = Some anna"
    by simp
  have k: "((clients0(1 \<mapsto> anna))(2 \<mapsto> bob)) 1 = Some anna"
    by simp
  have n: "(clients0(1 \<mapsto> anna)) 2 = None"
    by (simp add: clients0_def)
  have b: "((clients0(1 \<mapsto> anna))(2 \<mapsto> bob)) 2 = Some bob"
    by simp
  show ?thesis
    using r s a k n b
      run_store_invariant [OF r s, of 1 anna 1 anna 1 anna 2 bob]
    by blast
qed

subsection \<open>Which ids are accepted\<close>

text \<open>
  C10. \<open>addClientHandler\<close> checks nothing about the id but that the map has no entry
  for it: whatever client the decoder gives, with whatever id (zero and negative ones
  included), is stored under that id with 201 when the id is free. In particular, when
  the decoder succeeds and sets no field, as \<open>encoding/json\<close> does on an empty object,
  every field keeps the zero value \<open>newClient\<close> was declared with and the client is
  stored under id 0. \<open>deleteClientHandler\<close> accepts every 64-bit integer, zero and the
  negative ones included, written in decimal: when the map has an entry for it, the entry
  is removed with 200.
\<close>

theorem ids_unconstrained:
  "(Method r = MethodPost \<and> Decode (Body r) zeroClient = Some c \<and> clients (ID c) = None \<longrightarrow>
      addClientHandler Decode clients r =
        (clients(ID c \<mapsto> c), \<lparr>Status = 201, ContentType = None, Payload = ClientJSON c\<rparr>))
   \<and> (Method r' = MethodPost \<and> Decode' (Body r') zeroClient = Some zeroClient
        \<and> clients' 0 = None \<longrightarrow>
      addClientHandler Decode' clients' r' =
        (clients'(0 \<mapsto> zeroClient),
         \<lparr>Status = 201, ContentType = None, Payload = ClientJSON zeroClient\<rparr>))
   \<and> (Method d = MethodDelete \<and> Get (Query d) ''id'' = decimal i
        \<and> - (2 ^ 63) \<le> i \<and> i < 2 ^ 63 \<and> stored i = Some old \<longrightarrow>
      deleteClientHandler stored d =
        (stored(i := None), \<lparr>Status = 200, ContentType = None, Payload = DeletedText i\<rparr>))"
proof (intro conjI impI)
  assume "Method r = MethodPost \<and> Decode (Body r) zeroClient = Some c \<and> clients (ID c) = None"
  then show "addClientHandler Decode clients r =
      (clients(ID c \<mapsto> c), \<lparr>Status = 201, ContentType = None, Payload = ClientJSON c\<rparr>)"
    using addClientHandler_fresh [of r Decode c clients] by simp
next
  assume h: "Method r' = MethodPost \<and> Decode' (Body r') zeroClient = Some zeroClient
    \<and> clients' 0 = None"
  have z: "ID zeroClient = 0"
    by (simp add: zeroClient_def)
  show "addClientHandler Decode' clients' r' =
      (clients'(0 \<mapsto> zeroClient),
       \<lparr>Status = 201, ContentType = None, Payload = ClientJSON zeroClient\<rparr>)"
    using h addClientHandler_fresh [of r' Decode' zeroClient clients'] unfolding z by simp
next
  assume h: "Method d = MethodDelete \<and> Get (Query d) ''id'' = decimal i
    \<and> - (2 ^ 63) \<le> i \<and> i < 2 ^ 63 \<and> stored i = Some old"
  then have "Atoi (Get (Query d) ''id'') = Some i"
    using Atoi_decimal [of i] by simp
  then show "deleteClientHandler stored d =
      (stored(i := None), \<lparr>Status = 200, ContentType = None, Payload = DeletedText i\<rparr>)"
    using h deleteClientHandler_present [of d i stored old] by simp
qed

theorem ids_unconstrained_witness:
  "Method (postReq (sets (anna\<lparr>ID := - 7\<rparr>))) = MethodPost
   \<and> applyBody (Body (postReq (sets (anna\<lparr>ID := - 7\<rparr>)))) zeroClient = Some (anna\<lparr>ID := - 7\<rparr>)
   \<and> (clients0(1 \<mapsto> anna)) (ID (anna\<lparr>ID := - 7\<rparr>)) = None
   \<and> addClientHandler applyBody (clients0(1 \<mapsto> anna)) (postReq (sets (anna\<lparr>ID := - 7\<rparr>))) =
        ((clients0(1 \<mapsto> anna))(ID (anna\<lparr>ID := - 7\<rparr>) \<mapsto> anna\<lparr>ID := - 7\<rparr>),
         \<lparr>Status = 201, ContentType = None, Payload = ClientJSON (anna\<lparr>ID := - 7\<rparr>)\<rparr>)
   \<and> Method (postReq emptyObject) = MethodPost
   \<and> applyBody (Body (postReq emptyObject)) zeroClient = Some zeroClient
   \<and> (clients0(1 \<mapsto> anna)) 0 = None
   \<and> addClientHandler applyBody (clients0(1 \<mapsto> anna)) (postReq emptyObject) =
        ((clients0(1 \<mapsto> anna))(0 \<mapsto> zeroClient),
         \<lparr>Status = 201, ContentType = None, Payload = ClientJSON zeroClient\<rparr>)
   \<and> Method (deleteReq ''-7'') = MethodDelete
   \<and> Get (Query (deleteReq ''-7'')) ''id'' = decimal (- 7)
   \<and> - (2 ^ 63) \<le> (- 7 :: int) \<and> (- 7 :: int) < 2 ^ 63
   \<and> (clients0(- 7 \<mapsto> anna\<lparr>ID := - 7\<rparr>)) (- 7) = Some (anna\<lparr>ID := - 7\<rparr>)
   \<and> deleteClientHandler (clients0(- 7 \<mapsto> anna\<lparr>ID := - 7\<rparr>)) (deleteReq ''-7'') =
        ((clients0(- 7 \<mapsto> anna\<lparr>ID := - 7\<rparr>))(- 7 := None),
         \<lparr>Status = 200, ContentType = None, Payload = DeletedText (- 7)\<rparr>)"
proof -
  have m: "Method (postReq (sets (anna\<lparr>ID := - 7\<rparr>))) = MethodPost"
    by (simp add: postReq_def MethodPost_def)
  have b: "applyBody (Body (postReq (sets (anna\<lparr>ID := - 7\<rparr>)))) zeroClient
      = Some (anna\<lparr>ID := - 7\<rparr>)"
    by (simp add: postReq_def sets_def applyBody_def)
  have p: "(clients0(1 \<mapsto> anna)) (ID (anna\<lparr>ID := - 7\<rparr>)) = None"
    by (simp add: clients0_def)
  have m': "Method (postReq emptyObject) = MethodPost"
    by (simp add: postReq_def MethodPost_def)
  have b': "applyBody (Body (postReq emptyObject)) zeroClient = Some zeroClient"
    by (simp add: postReq_def emptyObject_def applyBody_def)
  have p': "(clients0(1 \<mapsto> anna)) 0 = None"
    by (simp add: clients0_def)
  have md: "Method (deleteReq ''-7'') = MethodDelete"
    by (simp add: deleteReq_def MethodDelete_def)
  have dq: "decimal (- 7) = ''-7''"
    by (simp add: decimal_def digits.simps char_of_eq_iff)
  have q: "Get (Query (deleteReq ''-7'')) ''id'' = decimal (- 7)"
    unfolding dq by (simp add: deleteReq_def Get_def)
  have lo: "- (2 ^ 63) \<le> (- 7 :: int)" and hi: "(- 7 :: int) < 2 ^ 63"
    by simp_all
  have s: "(clients0(- 7 \<mapsto> anna\<lparr>ID := - 7\<rparr>)) (- 7) = Some (anna\<lparr>ID := - 7\<rparr>)"
    by simp
  note t = ids_unconstrained [where Decode = applyBody and r = "postReq (sets (anna\<lparr>ID := - 7\<rparr>))"
      and c = "anna\<lparr>ID := - 7\<rparr>" and clients = "clients0(1 \<mapsto> anna)"
      and Decode' = applyBody and r' = "postReq emptyObject" and clients' = "clients0(1 \<mapsto> anna)"
      and d = "deleteReq ''-7''" and i = "- 7" and stored = "clients0(- 7 \<mapsto> anna\<lparr>ID := - 7\<rparr>)"
      and old = "anna\<lparr>ID := - 7\<rparr>"]
  show ?thesis
    using m b p m' b' p' md q lo hi s t by blast
qed

end
